theory Spec2Isabelle
  imports Complex_Main
begin

section \<open>The account ledger of DesafioBanc/main.py\<close>

text \<open>
  The embedding follows \<^verbatim>\<open>src/DesafioBanc/main.py\<close> class by class. Conventions:
  \<^item> a monetary amount (a Python \<^verbatim>\<open>float\<close>) is an exact \<^typ>\<open>real\<close>: comparisons are
    those of the source, sums and differences are not rounded, and the special floats
    (NaN, the infinities) are not values of the model;
  \<^item> a Python \<^verbatim>\<open>int\<close> is an \<^typ>\<open>int\<close>;
  \<^item> a Python \<^verbatim>\<open>str\<close> is a \<^typ>\<open>string\<close> with one \<^typ>\<open>char\<close> per code point (every
    character of the program's messages is below U+0100);
  \<^item> an object reference is a \<^typ>\<open>nat\<close>; objects that are shared and compared by identity
    (the accounts a client holds) live in a store from references to objects;
  \<^item> a method that mutates \<^verbatim>\<open>self\<close> returns the updated object; a method that prints
    returns the printed lines, one string per \<^verbatim>\<open>print\<close> call, in order;
  \<^item> the format specification \<^verbatim>\<open>:.2f\<close> of Python's f-strings is \<open>formato_2f\<close>: the exact
    value rounded to two decimals, a tie going to the even neighbour.
\<close>

type_synonym ref = nat

subsection \<open>Characters outside ASCII used by the messages\<close>

abbreviation a_agudo :: string where "a_agudo \<equiv> [CHR 0xE1]"
abbreviation a_til :: string where "a_til \<equiv> [CHR 0xE3]"
abbreviation c_cedilha :: string where "c_cedilha \<equiv> [CHR 0xE7]"
abbreviation i_agudo :: string where "i_agudo \<equiv> [CHR 0xED]"
abbreviation o_agudo :: string where "o_agudo \<equiv> [CHR 0xF3]"
abbreviation o_til :: string where "o_til \<equiv> [CHR 0xF5]"

subsection \<open>Python's \<^verbatim>\<open>str\<close> of an integer\<close>

definition digito :: "nat \<Rightarrow> char" where
  "digito d = ''0123456789'' ! d"

function str_nat :: "nat \<Rightarrow> string" where
  "str_nat n = (if n < 10 then [digito n] else str_nat (n div 10) @ [digito (n mod 10)])"
  by pat_completeness auto
termination
  by (relation "measure id") auto

declare str_nat.simps [simp del]

definition str_int :: "int \<Rightarrow> string" where
  "str_int i = (if i < 0 then ''-'' @ str_nat (nat (- i)) else str_nat (nat i))"

subsection \<open>The format specification \<^verbatim>\<open>:.2f\<close>\<close>

definition arredondar_par :: "real \<Rightarrow> int" where
  "arredondar_par y =
     (let f = \<lfloor>y\<rfloor>; r = y - of_int f
      in if r < 1 / 2 then f else if r > 1 / 2 then f + 1 else if even f then f else f + 1)"

definition formato_2f :: "real \<Rightarrow> string" where
  "formato_2f x =
     (let n = nat (arredondar_par (\<bar>x\<bar> * 100))
      in (if x < 0 then ''-'' else []) @ str_nat (n div 100) @ ''.''
           @ [digito (n mod 100 div 10), digito (n mod 10)])"

subsection \<open>Transacao, Deposito, Saque\<close>

datatype Transacao = Deposito real | Saque real

fun valor :: "Transacao \<Rightarrow> real" where
  "valor (Deposito v) = v"
| "valor (Saque v) = v"

text \<open>\<^verbatim>\<open>Deposito.__str__\<close> and \<^verbatim>\<open>Saque.__str__\<close>.\<close>

fun str_Transacao :: "Transacao \<Rightarrow> string" where
  "str_Transacao (Deposito v) = ''[+] Dep'' @ o_agudo @ ''sito: R$ '' @ formato_2f v"
| "str_Transacao (Saque v) = ''[-] Saque:    R$ '' @ formato_2f v"

subsection \<open>Historico\<close>

record Historico =
  transacoes :: "Transacao list"

definition Historico_init :: Historico where
  "Historico_init = \<lparr>transacoes = []\<rparr>"

definition adicionar_transacao :: "Historico \<Rightarrow> Transacao \<Rightarrow> Historico" where
  "adicionar_transacao h transacao = h\<lparr>transacoes := transacoes h @ [transacao]\<rparr>"

text \<open>
  \<^verbatim>\<open>Historico.gerar_relatorio\<close>: the loop appends one line to the local \<^verbatim>\<open>relatorio\<close> per
  transaction; the method assigns to no attribute, so it returns the text only.
\<close>

definition gerar_relatorio :: "Historico \<Rightarrow> string" where
  "gerar_relatorio h =
     (if transacoes h = [] then ''Nenhuma transa'' @ c_cedilha @ a_til @ ''o realizada.''
      else foldl (\<lambda>relatorio transacao. relatorio @ (str_Transacao transacao @ ''\<newline>''))
             (''--- Extrato de Transa'' @ c_cedilha @ o_til @ ''es ---\<newline>'')
             (transacoes h))"

subsection \<open>Conta and ContaCorrente\<close>

record Conta =
  saldo :: real
  numero :: int
  agencia :: string
  cliente :: ref
  historico :: Historico

record ContaCorrente = Conta +
  limite :: real
  limite_saques :: int
  numero_saques_realizados :: int

definition Conta_init :: "int \<Rightarrow> ref \<Rightarrow> string \<Rightarrow> Conta" where
  "Conta_init num cli ag =
     \<lparr>saldo = 0, numero = num, agencia = ag, cliente = cli, historico = Historico_init\<rparr>"

definition ContaCorrente_init :: "int \<Rightarrow> ref \<Rightarrow> real \<Rightarrow> int \<Rightarrow> ContaCorrente" where
  "ContaCorrente_init num cli lmt lmt_saques =
     \<lparr>saldo = 0, numero = num, agencia = ''0001'', cliente = cli, historico = Historico_init,
      limite = lmt, limite_saques = lmt_saques, numero_saques_realizados = 0\<rparr>"

text \<open>The factory \<^verbatim>\<open>nova_conta\<close>, at each of the two classes (the defaults filled in).\<close>

definition Conta_nova_conta :: "ref \<Rightarrow> int \<Rightarrow> Conta" where
  "Conta_nova_conta cli num = Conta_init num cli ''0001''"

definition ContaCorrente_nova_conta :: "ref \<Rightarrow> int \<Rightarrow> ContaCorrente" where
  "ContaCorrente_nova_conta cli num = ContaCorrente_init num cli 500 3"

text \<open>
  \<^verbatim>\<open>Deposito.registrar\<close> and \<^verbatim>\<open>Saque.registrar\<close>. They touch \<^verbatim>\<open>saldo\<close> and \<^verbatim>\<open>historico\<close> of
  whatever account they get, so they are typed at the record scheme: the fields of a
  subclass stay as they are.
\<close>

fun registrar :: "Transacao \<Rightarrow> 'a Conta_scheme \<Rightarrow> 'a Conta_scheme" where
  "registrar (Deposito v) conta =
     (let conta = conta\<lparr>saldo := saldo conta + v\<rparr>
      in conta\<lparr>historico := adicionar_transacao (historico conta) (Deposito v)\<rparr>)"
| "registrar (Saque v) conta =
     (let conta = conta\<lparr>saldo := saldo conta - v\<rparr>
      in conta\<lparr>historico := adicionar_transacao (historico conta) (Saque v)\<rparr>)"

text \<open>
  The methods below return the account after the call, the lines printed and the value
  returned.
\<close>

definition depositar :: "'a Conta_scheme \<Rightarrow> real \<Rightarrow> 'a Conta_scheme \<times> string list \<times> bool" where
  "depositar self v =
     (if v \<le> 0 then
        (self, [''Erro: O valor do dep'' @ o_agudo @ ''sito deve ser positivo.''], False)
      else
        (registrar (Deposito v) self, [''Dep'' @ o_agudo @ ''sito realizado com sucesso.''], True))"

definition Conta_sacar :: "'a Conta_scheme \<Rightarrow> real \<Rightarrow> 'a Conta_scheme \<times> string list \<times> bool" where
  "Conta_sacar self v =
     (if v \<le> 0 then
        (self, [''Erro: O valor do saque deve ser positivo.''], False)
      else if v > saldo self then
        (self, [''Erro: Saldo insuficiente.''], False)
      else
        (registrar (Saque v) self, [''Saque realizado com sucesso.''], True))"

definition ContaCorrente_sacar ::
  "'a ContaCorrente_scheme \<Rightarrow> real \<Rightarrow> 'a ContaCorrente_scheme \<times> string list \<times> bool" where
  "ContaCorrente_sacar self v =
     (if v \<le> 0 then
        (self, [''Erro: O valor do saque deve ser positivo.''], False)
      else if numero_saques_realizados self \<ge> limite_saques self then
        (self, [''Erro: Limite de '' @ str_int (limite_saques self) @ '' saques di'' @ a_agudo
                  @ ''rios atingido.''], False)
      else
        (let saldo_total_disponivel = saldo self + limite self in
         if v > saldo_total_disponivel then
           (self, [''Erro: Valor do saque excede o limite dispon'' @ i_agudo
                     @ ''vel (Saldo + Cheque Especial).'',
                   ''Dispon'' @ i_agudo @ ''vel: R$ '' @ formato_2f saldo_total_disponivel], False)
         else
           (let self = registrar (Saque v) self;
                self = self\<lparr>numero_saques_realizados := numero_saques_realizados self + 1\<rparr>
            in (self, [''Saque realizado com sucesso.''], True))))"

subsection \<open>Cliente\<close>

record Cliente =
  endereco :: string
  contas :: "ref list"

definition Cliente_init :: "string \<Rightarrow> Cliente" where
  "Cliente_init ender = \<lparr>endereco = ender, contas = []\<rparr>"

definition adicionar_conta :: "'a Cliente_scheme \<Rightarrow> ref \<Rightarrow> 'a Cliente_scheme" where
  "adicionar_conta self conta = self\<lparr>contas := contas self @ [conta]\<rparr>"

text \<open>
  The accounts are objects of either class, held by reference: \<^verbatim>\<open>conta not in self.contas\<close>
  compares identities, since neither class defines \<^verbatim>\<open>__eq__\<close>. The store gives the object
  behind each reference.
\<close>

datatype conta_obj = ObjConta Conta | ObjContaCorrente ContaCorrente

type_synonym store = "ref \<Rightarrow> conta_obj"

fun registrar_obj :: "Transacao \<Rightarrow> conta_obj \<Rightarrow> conta_obj" where
  "registrar_obj t (ObjConta c) = ObjConta (registrar t c)"
| "registrar_obj t (ObjContaCorrente c) = ObjContaCorrente (registrar t c)"

text \<open>
  \<^verbatim>\<open>Cliente.realizar_transacao\<close> returns \<^verbatim>\<open>None\<close> on both paths; the model returns the store
  after the call and the lines printed. The client itself is only read.
\<close>

definition realizar_transacao ::
  "'a Cliente_scheme \<Rightarrow> store \<Rightarrow> ref \<Rightarrow> Transacao \<Rightarrow> store \<times> string list" where
  "realizar_transacao self st conta transacao =
     (if conta \<notin> set (contas self) then
        (st, [''Erro: O cliente n'' @ a_til @ ''o possui esta conta.''])
      else
        (st(conta := registrar_obj transacao (st conta)), []))"

subsection \<open>Sequences of calls\<close>

text \<open>
  A caller's sequence of \<^verbatim>\<open>depositar\<close> and \<^verbatim>\<open>sacar\<close> calls on one account; \<^verbatim>\<open>sacar\<close> is the
  method of the account's class.
\<close>

datatype chamada = Depositar real | Sacar real

fun Conta_chamar :: "'a Conta_scheme \<Rightarrow> chamada \<Rightarrow> 'a Conta_scheme" where
  "Conta_chamar c (Depositar v) = fst (depositar c v)"
| "Conta_chamar c (Sacar v) = fst (Conta_sacar c v)"

fun ContaCorrente_chamar ::
  "'a ContaCorrente_scheme \<Rightarrow> chamada \<Rightarrow> 'a ContaCorrente_scheme" where
  "ContaCorrente_chamar c (Depositar v) = fst (depositar c v)"
| "ContaCorrente_chamar c (Sacar v) = fst (ContaCorrente_sacar c v)"

text \<open>The signed amount of a transaction: a deposit counts positive, a withdrawal negative.\<close>

fun valor_com_sinal :: "Transacao \<Rightarrow> real" where
  "valor_com_sinal (Deposito v) = v"
| "valor_com_sinal (Saque v) = - v"



subsection \<open>Example objects\<close>

text \<open>
  A new base account (reference 1) and a new checking account (reference 2) of client 0, the
  checking account after three withdrawals of 1 and after one withdrawal of 100, the base
  account after a withdrawal of 10 registered directly, a client holding references 1 and
  2, and a store in which every other reference is an account of another client.
\<close>

definition conta_exemplo :: Conta where
  "conta_exemplo = Conta_nova_conta 0 1"

definition corrente_exemplo :: ContaCorrente where
  "corrente_exemplo = ContaCorrente_nova_conta 0 2"

definition corrente_tres_saques :: ContaCorrente where
  "corrente_tres_saques = foldl ContaCorrente_chamar corrente_exemplo [Sacar 1, Sacar 1, Sacar 1]"


definition conta_negativa :: Conta where
  "conta_negativa = registrar (Saque 10) conta_exemplo"

definition cliente_exemplo :: Cliente where
  "cliente_exemplo = adicionar_conta (adicionar_conta (Cliente_init ''Rua A, 1'') 1) 2"

definition store_exemplo :: store where
  "store_exemplo =
     (\<lambda>r. ObjConta (Conta_nova_conta 9 (int r)))
       (1 := ObjConta conta_exemplo, 2 := ObjContaCorrente corrente_tres_saques)"

section \<open>What registering a transaction changes\<close>

lemma registrar_saldo: "saldo (registrar t c) = saldo c + valor_com_sinal t"
  by (cases t) (simp_all add: Let_def)

lemma registrar_transacoes:
  "transacoes (historico (registrar t c)) = transacoes (historico c) @ [t]"
  by (cases t) (simp_all add: Let_def adicionar_transacao_def)

lemma registrar_more: "Conta.more (registrar t c) = Conta.more c"
  by (cases t) (simp_all add: Let_def)

lemma registrar_campos:
  "numero (registrar t c) = numero c \<and> agencia (registrar t c) = agencia c
     \<and> cliente (registrar t c) = cliente c"
  by (cases t) (simp_all add: Let_def)

lemma registrar_numero_saques:
  "numero_saques_realizados (registrar t c) = numero_saques_realizados c
     \<and> limite_saques (registrar t c) = limite_saques c \<and> limite (registrar t c) = limite c"
  by (cases t) (simp_all add: Let_def)

declare registrar.simps [simp del]










lemma foldl_linhas:
  "foldl (\<lambda>relatorio transacao. relatorio @ (str_Transacao transacao @ ''\<newline>'')) acc ts
     = acc @ concat (map (\<lambda>t. str_Transacao t @ ''\<newline>'') ts)"
  by (induction ts arbitrary: acc) simp_all

section \<open>Evaluating the examples\<close>

lemmas exemplos =
  conta_exemplo_def corrente_exemplo_def corrente_tres_saques_def cliente_exemplo_def
  store_exemplo_def Conta_nova_conta_def ContaCorrente_nova_conta_def Conta_init_def
  ContaCorrente_init_def Historico_init_def Cliente_init_def adicionar_conta_def

lemmas avaliar =
  depositar_def Conta_sacar_def ContaCorrente_sacar_def registrar.simps
  adicionar_transacao_def realizar_transacao_def Let_def
  formato_2f_def arredondar_par_def str_nat.simps digito_def str_int_def

lemma corrente_tres_saques_valor:
  "corrente_tres_saques =
     \<lparr>saldo = - 3, numero = 2, agencia = ''0001'', cliente = 0,
      historico = \<lparr>transacoes = [Saque 1, Saque 1, Saque 1]\<rparr>,
      limite = 500, limite_saques = 3, numero_saques_realizados = 3\<rparr>"
  by (simp add: exemplos avaliar)


section \<open>The claims\<close>


text \<open>
  C2 (a rejected call changes nothing). For \<^verbatim>\<open>depositar\<close> on an account of either class,
  \<^verbatim>\<open>Conta.sacar\<close> and \<^verbatim>\<open>ContaCorrente.sacar\<close>: a call that returns \<^verbatim>\<open>False\<close> returns the
  account as it was (balance, history, withdrawal counter and every other field), and a
  call that returns \<^verbatim>\<open>True\<close> makes the history exactly one transaction longer.
\<close>

theorem C2_rejection_atomic:
  "(\<not> snd (snd (depositar c v)) \<longrightarrow> fst (depositar c v) = c)
   \<and> (snd (snd (depositar c v)) \<longrightarrow>
        length (transacoes (historico (fst (depositar c v))))
          = Suc (length (transacoes (historico c))))
   \<and> (\<not> snd (snd (Conta_sacar c v)) \<longrightarrow> fst (Conta_sacar c v) = c)
   \<and> (snd (snd (Conta_sacar c v)) \<longrightarrow>
        length (transacoes (historico (fst (Conta_sacar c v))))
          = Suc (length (transacoes (historico c))))
   \<and> (\<not> snd (snd (ContaCorrente_sacar cc v)) \<longrightarrow> fst (ContaCorrente_sacar cc v) = cc)
   \<and> (snd (snd (ContaCorrente_sacar cc v)) \<longrightarrow>
        length (transacoes (historico (fst (ContaCorrente_sacar cc v))))
          = Suc (length (transacoes (historico cc))))"
  by (simp add: depositar_def Conta_sacar_def ContaCorrente_sacar_def Let_def
      registrar_transacoes)

text \<open>
  Instances: a deposit of -5 and a deposit of 100 on a new base account, withdrawals of 150
  and of 30 from the balance of 100, a withdrawal on a checking account that has used its
  three withdrawals, and one on a new checking account.
\<close>

theorem C2_rejection_atomic_witness:
  "\<not> snd (snd (depositar conta_exemplo (- 5)))
   \<and> fst (depositar conta_exemplo (- 5)) = conta_exemplo
   \<and> snd (snd (depositar conta_exemplo 100))
   \<and> length (transacoes (historico (fst (depositar conta_exemplo 100))))
       = Suc (length (transacoes (historico conta_exemplo)))
   \<and> \<not> snd (snd (Conta_sacar (fst (depositar conta_exemplo 100)) 150))
   \<and> fst (Conta_sacar (fst (depositar conta_exemplo 100)) 150) = fst (depositar conta_exemplo 100)
   \<and> snd (snd (Conta_sacar (fst (depositar conta_exemplo 100)) 30))
   \<and> length (transacoes (historico (fst (Conta_sacar (fst (depositar conta_exemplo 100)) 30))))
       = Suc (length (transacoes (historico (fst (depositar conta_exemplo 100)))))
   \<and> \<not> snd (snd (ContaCorrente_sacar corrente_tres_saques 30))
   \<and> fst (ContaCorrente_sacar corrente_tres_saques 30) = corrente_tres_saques
   \<and> snd (snd (ContaCorrente_sacar corrente_exemplo 30))
   \<and> length (transacoes (historico (fst (ContaCorrente_sacar corrente_exemplo 30))))
       = Suc (length (transacoes (historico corrente_exemplo)))"
  using C2_rejection_atomic [where c = conta_exemplo and v = "- 5" and cc = corrente_exemplo]
    C2_rejection_atomic [where c = conta_exemplo and v = 100 and cc = corrente_exemplo]
    C2_rejection_atomic [where c = "fst (depositar conta_exemplo 100)" and v = 150
      and cc = corrente_exemplo]
    C2_rejection_atomic [where c = "fst (depositar conta_exemplo 100)" and v = 30
      and cc = corrente_tres_saques]
    C2_rejection_atomic [where c = "fst (depositar conta_exemplo 100)" and v = 30
      and cc = corrente_exemplo]
  by (simp add: corrente_tres_saques_valor exemplos avaliar)

text \<open>
  C3 (withdrawal ceiling and precedence), amended. Once the counter of a checking account
  has reached \<^verbatim>\<open>limite_saques\<close>, every \<^verbatim>\<open>sacar\<close> call returns \<^verbatim>\<open>False\<close> and leaves the
  account as it was, whatever the balance and the overdraft limit. For a positive amount
  the one line printed is the limit message, never the insufficient-funds one: the limit is
  tested before the funds. For an amount that is not positive the line printed is the
  invalid-amount message, since that test comes first.
\<close>

theorem C3_limit_precedence:
  assumes "limite_saques c \<le> numero_saques_realizados c"
  shows "ContaCorrente_sacar c v
     = (c, [if v \<le> 0 then ''Erro: O valor do saque deve ser positivo.''
            else ''Erro: Limite de '' @ str_int (limite_saques c) @ '' saques di'' @ a_agudo
                   @ ''rios atingido.''], False)"
  using assms by (simp add: ContaCorrente_sacar_def)

text \<open>
  Instances, on the account with three withdrawals made (balance -3, overdraft 500): a
  withdrawal of 1000, which the funds would not cover either, and a withdrawal of 1, which
  they would.
\<close>

theorem C3_limit_precedence_witness:
  "limite_saques corrente_tres_saques \<le> numero_saques_realizados corrente_tres_saques
   \<and> saldo corrente_tres_saques + limite corrente_tres_saques < 1000
   \<and> ContaCorrente_sacar corrente_tres_saques 1000
       = (corrente_tres_saques, [''Erro: Limite de 3 saques di'' @ a_agudo @ ''rios atingido.''],
          False)
   \<and> 1 \<le> saldo corrente_tres_saques + limite corrente_tres_saques
   \<and> ContaCorrente_sacar corrente_tres_saques 1
       = (corrente_tres_saques, [''Erro: Limite de 3 saques di'' @ a_agudo @ ''rios atingido.''],
          False)"
proof -
  have h: "limite_saques corrente_tres_saques \<le> numero_saques_realizados corrente_tres_saques"
    by (simp add: corrente_tres_saques_valor)
  show ?thesis
    using h C3_limit_precedence [OF h, of 1000] C3_limit_precedence [OF h, of 1]
    by (simp add: corrente_tres_saques_valor avaliar)
qed

text \<open>
  Without the restriction to positive amounts the statement fails: with the counter at the
  limit, a withdrawal of -1 is reported as an invalid amount and not as a reached limit.
\<close>

theorem C3_limit_counterexample:
  "limite_saques corrente_tres_saques \<le> numero_saques_realizados corrente_tres_saques
   \<and> ContaCorrente_sacar corrente_tres_saques (- 1)
       = (corrente_tres_saques, [''Erro: O valor do saque deve ser positivo.''], False)
   \<and> fst (snd (ContaCorrente_sacar corrente_tres_saques (- 1)))
       \<noteq> [''Erro: Limite de 3 saques di'' @ a_agudo @ ''rios atingido.'']"
  by (simp add: corrente_tres_saques_valor avaliar)




text \<open>
  C5 (insufficient funds on a base account), amended. Whenever the amount exceeds the
  balance, \<^verbatim>\<open>Conta.sacar\<close> returns \<^verbatim>\<open>False\<close> and leaves the account as it was (balance and
  history included); the line printed is the insufficient-funds message when the amount is
  positive, and the invalid-amount message when it is not.
\<close>

theorem C5_base_insufficient:
  assumes "saldo c < v"
  shows "Conta_sacar c v
     = (c, [if v \<le> 0 then ''Erro: O valor do saque deve ser positivo.''
            else ''Erro: Saldo insuficiente.''], False)"
  using assms by (simp add: Conta_sacar_def)

text \<open>Instance: a withdrawal of 150 from a base account holding 100.\<close>

theorem C5_base_insufficient_witness:
  "saldo (fst (depositar conta_exemplo 100)) < 150
   \<and> Conta_sacar (fst (depositar conta_exemplo 100)) 150
       = (\<lparr>saldo = 100, numero = 1, agencia = ''0001'', cliente = 0,
           historico = \<lparr>transacoes = [Deposito 100]\<rparr>\<rparr>,
          [''Erro: Saldo insuficiente.''], False)"
  using C5_base_insufficient [of "fst (depositar conta_exemplo 100)" 150]
  by (simp add: exemplos avaliar)

text \<open>
  Without the case distinction the statement fails: a base account whose balance a
  withdrawal registered through \<^verbatim>\<open>Cliente.realizar_transacao\<close> has brought to -10 reports a
  withdrawal of -5, which exceeds the balance, as an invalid amount.
\<close>

theorem C5_insufficient_counterexample:
  "fst (realizar_transacao cliente_exemplo store_exemplo 1 (Saque 10)) 1 = ObjConta conta_negativa
   \<and> saldo conta_negativa < - 5
   \<and> Conta_sacar conta_negativa (- 5)
       = (conta_negativa, [''Erro: O valor do saque deve ser positivo.''], False)
   \<and> fst (snd (Conta_sacar conta_negativa (- 5))) \<noteq> [''Erro: Saldo insuficiente.'']"
  by (simp add: conta_negativa_def exemplos avaliar)

text \<open>
  C6 (deposit). On an account of either class, \<^verbatim>\<open>depositar\<close> with an amount that is not
  positive prints the invalid-amount message, returns \<^verbatim>\<open>False\<close> and leaves the account as it
  was; with a positive amount it registers a \<^verbatim>\<open>Deposito\<close> of that amount (the balance grows
  by the amount, the history gets the deposit at its end, the fields of a subclass stay),
  prints the success message and returns \<^verbatim>\<open>True\<close>. It returns \<^verbatim>\<open>True\<close> exactly when the amount
  is positive, so there is no other way to fail.
\<close>

theorem C6_deposit_contract:
  "(v \<le> 0 \<longrightarrow>
      depositar c v
        = (c, [''Erro: O valor do dep'' @ o_agudo @ ''sito deve ser positivo.''], False))
   \<and> (0 < v \<longrightarrow>
        depositar c v
          = (registrar (Deposito v) c, [''Dep'' @ o_agudo @ ''sito realizado com sucesso.''], True)
        \<and> saldo (fst (depositar c v)) = saldo c + v
        \<and> transacoes (historico (fst (depositar c v))) = transacoes (historico c) @ [Deposito v]
        \<and> Conta.more (fst (depositar c v)) = Conta.more c)
   \<and> snd (snd (depositar c v)) = (0 < v)"
  by (auto simp add: depositar_def registrar_saldo registrar_transacoes registrar_more)

text \<open>
  Instances: a deposit of -5 on a new base account, and a deposit of 100 on the checking
  account that has made three withdrawals: that the counter is at its limit does not matter.
\<close>

theorem C6_deposit_contract_witness:
  "(- 5 :: real) \<le> 0
   \<and> depositar conta_exemplo (- 5)
       = (conta_exemplo, [''Erro: O valor do dep'' @ o_agudo @ ''sito deve ser positivo.''], False)
   \<and> (0 :: real) < 100
   \<and> depositar corrente_tres_saques 100
       = (\<lparr>saldo = 97, numero = 2, agencia = ''0001'', cliente = 0,
           historico = \<lparr>transacoes = [Saque 1, Saque 1, Saque 1, Deposito 100]\<rparr>,
           limite = 500, limite_saques = 3, numero_saques_realizados = 3\<rparr>,
          [''Dep'' @ o_agudo @ ''sito realizado com sucesso.''], True)"
  using C6_deposit_contract [of "- 5" conta_exemplo]
    C6_deposit_contract [of 100 corrente_tres_saques]
  by (simp add: corrente_tres_saques_valor avaliar)

text \<open>
  C7 (shape of the report). \<^verbatim>\<open>gerar_relatorio\<close> reads the history and changes nothing: the
  model is a function of the history alone, so two calls on the same history give the same
  text. On an empty history the text is the line saying that there are no transactions,
  with no header; otherwise it is the header line followed by one line per transaction, in
  the order of the history, each the transaction's \<^verbatim>\<open>__str__\<close> and a newline.
\<close>

theorem C7_report_shape:
  "gerar_relatorio h =
     (if transacoes h = [] then ''Nenhuma transa'' @ c_cedilha @ a_til @ ''o realizada.''
      else (''--- Extrato de Transa'' @ c_cedilha @ o_til @ ''es ---'' @ ''\<newline>'')
             @ concat (map (\<lambda>t. str_Transacao t @ ''\<newline>'') (transacoes h)))"
  by (simp add: gerar_relatorio_def foldl_linhas)

text \<open>
  Instances: the history of a new account, and that of an account after a deposit of 100
  and a withdrawal of 30.50.
\<close>

theorem C7_report_shape_witness:
  "gerar_relatorio (historico conta_exemplo) = ''Nenhuma transa'' @ c_cedilha @ a_til @ ''o realizada.''
   \<and> gerar_relatorio (historico (foldl Conta_chamar conta_exemplo [Depositar 100, Sacar (61 / 2)]))
       = ''--- Extrato de Transa'' @ c_cedilha @ o_til @ ''es ---'' @ ''\<newline>''
         @ ''[+] Dep'' @ o_agudo @ ''sito: R$ 100.00'' @ ''\<newline>''
         @ ''[-] Saque:    R$ 30.50'' @ ''\<newline>''"
  using C7_report_shape [of "historico conta_exemplo"]
    C7_report_shape [of "historico (foldl Conta_chamar conta_exemplo [Depositar 100, Sacar (61 / 2)])"]
  by (simp add: exemplos avaliar)

text \<open>
  C8 (ownership gate). When the account's reference is not in the client's list,
  \<^verbatim>\<open>realizar_transacao\<close> prints that the client does not own the account and the store is as
  it was. When it is in the list, the transaction is registered on that account and on no
  other, with no test of the amount or of the funds: for every transaction the balance
  moves by the signed amount and the history gets the transaction at its end.
\<close>

theorem C8_ownership_gate:
  "(conta \<notin> set (contas self) \<longrightarrow>
      realizar_transacao self st conta t
        = (st, [''Erro: O cliente n'' @ a_til @ ''o possui esta conta.'']))
   \<and> (conta \<in> set (contas self) \<longrightarrow>
        realizar_transacao self st conta t = (st(conta := registrar_obj t (st conta)), [])
        \<and> (st conta = ObjConta c \<longrightarrow>
              fst (realizar_transacao self st conta t) conta = ObjConta (registrar t c)
              \<and> saldo (registrar t c) = saldo c + valor_com_sinal t
              \<and> transacoes (historico (registrar t c)) = transacoes (historico c) @ [t])
        \<and> (st conta = ObjContaCorrente cc \<longrightarrow>
              fst (realizar_transacao self st conta t) conta = ObjContaCorrente (registrar t cc)
              \<and> saldo (registrar t cc) = saldo cc + valor_com_sinal t
              \<and> transacoes (historico (registrar t cc)) = transacoes (historico cc) @ [t]))"
  by (simp add: realizar_transacao_def registrar_saldo registrar_transacoes)

text \<open>
  Instances: reference 3 is not the client's; reference 1 is a new base account, on which
  \<^verbatim>\<open>Conta.sacar\<close> refuses a withdrawal of 10 while \<^verbatim>\<open>realizar_transacao\<close> registers it; reference
  2 is a checking account, on which \<^verbatim>\<open>depositar\<close> refuses a deposit of -7 while
  \<^verbatim>\<open>realizar_transacao\<close> registers it.
\<close>

theorem C8_ownership_gate_witness:
  "3 \<notin> set (contas cliente_exemplo)
   \<and> realizar_transacao cliente_exemplo store_exemplo 3 (Saque 10)
       = (store_exemplo, [''Erro: O cliente n'' @ a_til @ ''o possui esta conta.''])
   \<and> 1 \<in> set (contas cliente_exemplo)
   \<and> store_exemplo 1 = ObjConta conta_exemplo
   \<and> Conta_sacar conta_exemplo 10 = (conta_exemplo, [''Erro: Saldo insuficiente.''], False)
   \<and> realizar_transacao cliente_exemplo store_exemplo 1 (Saque 10)
       = (store_exemplo(1 := ObjConta
            \<lparr>saldo = - 10, numero = 1, agencia = ''0001'', cliente = 0,
             historico = \<lparr>transacoes = [Saque 10]\<rparr>\<rparr>), [])
   \<and> 2 \<in> set (contas cliente_exemplo)
   \<and> store_exemplo 2 = ObjContaCorrente corrente_tres_saques
   \<and> depositar corrente_tres_saques (- 7)
       = (corrente_tres_saques,
          [''Erro: O valor do dep'' @ o_agudo @ ''sito deve ser positivo.''], False)
   \<and> fst (realizar_transacao cliente_exemplo store_exemplo 2 (Deposito (- 7))) 2
       = ObjContaCorrente
           \<lparr>saldo = - 10, numero = 2, agencia = ''0001'', cliente = 0,
            historico = \<lparr>transacoes = [Saque 1, Saque 1, Saque 1, Deposito (- 7)]\<rparr>,
            limite = 500, limite_saques = 3, numero_saques_realizados = 3\<rparr>"
  using C8_ownership_gate [of 3 cliente_exemplo store_exemplo "Saque 10" conta_exemplo
      corrente_tres_saques]
    C8_ownership_gate [of 1 cliente_exemplo store_exemplo "Saque 10" conta_exemplo
      corrente_tres_saques]
    C8_ownership_gate [of 2 cliente_exemplo store_exemplo "Deposito (- 7)" conta_exemplo
      corrente_tres_saques]
  by (simp add: corrente_tres_saques_valor cliente_exemplo_def store_exemplo_def
      conta_exemplo_def Conta_nova_conta_def Conta_init_def Historico_init_def Cliente_init_def
      adicionar_conta_def avaliar)

text \<open>
  C9 (the direct path does not count withdrawals). A \<^verbatim>\<open>Saque\<close> registered through
  \<^verbatim>\<open>realizar_transacao\<close> on a checking account the client holds lowers the balance by the
  amount and adds the withdrawal to the history, and the counter of withdrawals stays.
  Registering any transaction leaves the counter, so does \<^verbatim>\<open>depositar\<close>; only a successful
  \<^verbatim>\<open>ContaCorrente.sacar\<close> advances it, by one.
\<close>

theorem C9_bypass_leaves_counter:
  "(conta \<in> set (contas self) \<and> st conta = ObjContaCorrente c \<longrightarrow>
      fst (realizar_transacao self st conta (Saque v)) conta
        = ObjContaCorrente (registrar (Saque v) c)
      \<and> saldo (registrar (Saque v) c) = saldo c - v
      \<and> transacoes (historico (registrar (Saque v) c)) = transacoes (historico c) @ [Saque v]
      \<and> numero_saques_realizados (registrar (Saque v) c) = numero_saques_realizados c)
   \<and> numero_saques_realizados (registrar t c) = numero_saques_realizados c
   \<and> numero_saques_realizados (fst (depositar c v)) = numero_saques_realizados c
   \<and> numero_saques_realizados (fst (ContaCorrente_sacar c v))
       = (if snd (snd (ContaCorrente_sacar c v)) then numero_saques_realizados c + 1
          else numero_saques_realizados c)"
  by (simp add: realizar_transacao_def registrar_saldo registrar_transacoes
      registrar_numero_saques depositar_def ContaCorrente_sacar_def Let_def)

text \<open>
  Instance: the checking account with three withdrawals made refuses a fourth through
  \<^verbatim>\<open>sacar\<close>; a withdrawal of 40 through \<^verbatim>\<open>realizar_transacao\<close> is applied and the counter is
  still 3.
\<close>

theorem C9_bypass_leaves_counter_witness:
  "2 \<in> set (contas cliente_exemplo)
   \<and> store_exemplo 2 = ObjContaCorrente corrente_tres_saques
   \<and> numero_saques_realizados corrente_tres_saques = 3
   \<and> \<not> snd (snd (ContaCorrente_sacar corrente_tres_saques 40))
   \<and> fst (realizar_transacao cliente_exemplo store_exemplo 2 (Saque 40)) 2
       = ObjContaCorrente
           \<lparr>saldo = - 43, numero = 2, agencia = ''0001'', cliente = 0,
            historico = \<lparr>transacoes = [Saque 1, Saque 1, Saque 1, Saque 40]\<rparr>,
            limite = 500, limite_saques = 3, numero_saques_realizados = 3\<rparr>"
  using C9_bypass_leaves_counter [of 2 cliente_exemplo store_exemplo corrente_tres_saques 40
      "Saque 40"]
  by (simp add: corrente_tres_saques_valor cliente_exemplo_def store_exemplo_def
      Cliente_init_def adicionar_conta_def avaliar)


end
